theory Spec2Isabelle
  imports Main "HOL-Library.Word"
begin

section \<open>Values of the Go program\<close>

text \<open>
  The development embeds \<^verbatim>\<open>messenger.go\<close>. Go's \<^verbatim>\<open>int64\<close> is a 64-bit word, a Go
  string is a byte list, a pointer that may be nil is an \<open>option\<close>, and a Go \<^verbatim>\<open>error\<close>
  result is an \<open>error option\<close> (\<open>None\<close> is nil). Functions of the standard library
  (\<^verbatim>\<open>encoding/json\<close>, \<^verbatim>\<open>net/http\<close>) are not part of the repository: they are arguments
  of the functions that call them.
\<close>

type_synonym int64 = "64 word"

text \<open>
  An error value. \<open>LibraryError\<close> stands for the errors made by the standard library
  (transport and JSON errors). Modelled from the spec: the platform error is declared
  outside \<^verbatim>\<open>messenger.go\<close>; the spec gives it a code and a message, and the error built
  from it carries both.
\<close>

datatype error = LibraryError string | PlatformError int string

text \<open>A run-time panic of the Go program.\<close>

datatype panic = NilPointerDereference

text \<open>
  A non-nil Go function value, identified by its code pointer. A handler field that is nil
  is \<open>None\<close>.
\<close>

datatype func = FuncValue nat

text \<open>
  An \<^verbatim>\<open>io.ReadCloser\<close>: the bytes not read yet and whether Close has been called.
  \<open>Read_n\<close> takes bytes from the reader and \<open>Close\<close> closes it; what the Close of a
  particular reader does beyond that is not part of \<^verbatim>\<open>messenger.go\<close>.
\<close>

record reader =
  unread :: string
  closed :: bool

definition Read_n :: "nat \<Rightarrow> reader \<Rightarrow> reader" where
  "Read_n n rd = rd\<lparr>unread := drop n (unread rd)\<rparr>"

definition Close :: "reader \<Rightarrow> reader" where
  "Close rd = rd\<lparr>closed := True\<rparr>"

text \<open>
  \<^verbatim>\<open>json.NewDecoder(rd).Decode(&v)\<close>: a decoder is given the reader and the value behind
  the pointer; it returns how many bytes it took from the reader, the value it left behind
  the pointer and its error.
\<close>

type_synonym 'v decoder = "reader \<Rightarrow> 'v \<Rightarrow> nat \<times> 'v \<times> error option"

text \<open>
  \<^verbatim>\<open>http.Request\<close>, for the server and the client side, with the fields the program
  touches. \<open>Form\<close> holds the parsed form values that \<^verbatim>\<open>r.FormValue\<close> reads (query and
  body parameters, a list of values for each key). The body of a request that a server
  hands to a handler is never nil.
\<close>

record Request =
  Method :: string
  URL :: string
  Header :: "string \<rightharpoonup> string list"
  Form :: "string \<rightharpoonup> string list"
  Body :: reader

text \<open>\<^verbatim>\<open>r.FormValue(key)\<close>: the first value of the key, the empty string when there is none.\<close>

definition FormValue :: "Request \<Rightarrow> string \<Rightarrow> string" where
  "FormValue r key = (case Form r key of Some (v # vs) \<Rightarrow> v | _ \<Rightarrow> [])"

text \<open>\<^verbatim>\<open>http.Response\<close>; only its body is read.\<close>

record Response =
  RespBody :: reader

text \<open>An \<^verbatim>\<open>http.ResponseWriter\<close> is the response body written so far; Write appends.\<close>

type_synonym ResponseWriter = string

definition Write :: "ResponseWriter \<Rightarrow> string \<Rightarrow> ResponseWriter" where
  "Write w b = w @ b"

section \<open>The adapter\<close>

definition const_apiURL :: string where
  "const_apiURL = ''https://graph.facebook.com/v2.6/''"

text \<open>
  The struct \<^verbatim>\<open>Messenger\<close>. \<open>'c\<close> is \<^verbatim>\<open>http.Client\<close>. The package-level constant
  \<^verbatim>\<open>apiURL\<close> is \<open>const_apiURL\<close>, since the field has the same name.
\<close>

record 'c Messenger =
  AccessToken :: string
  VerifyToken :: string
  PageID :: string
  HttpClient :: "'c option"
  apiURL :: string
  pageURL :: string
  MessageReceived :: "func option"
  DeliveryReceived :: "func option"
  PostbackReceived :: "func option"
  OptinReceived :: "func option"
  ReadReceived :: "func option"

definition New :: "string \<Rightarrow> string \<Rightarrow> 'c Messenger" where
  "New accessToken pageID =
     \<lparr>AccessToken = accessToken, VerifyToken = [], PageID = pageID, HttpClient = None,
      apiURL = [], pageURL = [], MessageReceived = None, DeliveryReceived = None,
      PostbackReceived = None, OptinReceived = None, ReadReceived = None\<rparr>"

text \<open>
  \<^verbatim>\<open>GetClient\<close>: \<open>zero_client\<close> is \<^verbatim>\<open>&http.Client{}\<close>. The method has a pointer receiver,
  so the adapter is returned with the client.
\<close>

definition GetClient :: "'c \<Rightarrow> 'c Messenger \<Rightarrow> 'c Messenger \<times> 'c" where
  "GetClient zero_client msng =
     (let msng' = (if HttpClient msng = None then msng\<lparr>HttpClient := Some zero_client\<rparr>
                   else msng)
      in (msng', the (HttpClient msng')))"

section \<open>Inbound webhook requests\<close>

text \<open>
  The types of the webhook payload are declared outside \<^verbatim>\<open>messenger.go\<close>. The records
  have the fields that \<^verbatim>\<open>ServeHTTP\<close> reads; the five payload types are the type
  parameters \<open>'m\<close>, \<open>'d\<close>, \<open>'p\<close>, \<open>'o\<close> and \<open>'r\<close>.
\<close>

record User =
  ID :: int64

record ('m, 'd, 'p, 'o, 'r) MessagingEvent =
  Sender :: User
  Message :: "'m option"
  Delivery :: "'d option"
  Postback :: "'p option"
  Optin :: "'o option"
  Read :: "'r option"

record ('m, 'd, 'p, 'o, 'r) EntryItem =
  Messaging :: "('m, 'd, 'p, 'o, 'r) MessagingEvent list"

record ('m, 'd, 'p, 'o, 'r) FacebookRequest =
  Entry :: "('m, 'd, 'p, 'o, 'r) EntryItem list"

definition zero_FacebookRequest :: "('m, 'd, 'p, 'o, 'r) FacebookRequest" where
  "zero_FacebookRequest = \<lparr>Entry = []\<rparr>"

text \<open>
  \<^verbatim>\<open>DecodeRequest\<close>: the deferred Close runs on every return path. The request is
  returned with its body in the state the call leaves it in.
\<close>

definition DecodeRequest ::
  "('m, 'd, 'p, 'o, 'r) FacebookRequest decoder \<Rightarrow> Request \<Rightarrow>
   Request \<times> ('m, 'd, 'p, 'o, 'r) FacebookRequest \<times> error option" where
  "DecodeRequest dec r =
     (let (n, fbRq, err) = dec (Body r) zero_FacebookRequest
      in (r\<lparr>Body := Close (Read_n n (Body r))\<rparr>, fbRq, err))"

text \<open>\<^verbatim>\<open>VerifyWebhook\<close>, returning the response writer.\<close>

definition VerifyWebhook :: "'c Messenger \<Rightarrow> ResponseWriter \<Rightarrow> Request \<Rightarrow> ResponseWriter" where
  "VerifyWebhook msng w r =
     (if FormValue r ''hub.mode'' = ''subscribe'' then
        (if FormValue r ''hub.verify_token'' = VerifyToken msng then
           Write w (FormValue r ''hub.challenge'')
         else w)
      else w)"

text \<open>
  A goroutine started by \<^verbatim>\<open>ServeHTTP\<close>: the handler called and its three arguments (the
  adapter, the user id, the payload).
\<close>

datatype ('c, 'm, 'd, 'p, 'o, 'r) goroutine =
    go_MessageReceived func "'c Messenger" int64 'm
  | go_DeliveryReceived func "'c Messenger" int64 'd
  | go_PostbackReceived func "'c Messenger" int64 'p
  | go_OptinReceived func "'c Messenger" int64 'o
  | go_ReadReceived func "'c Messenger" int64 'r

text \<open>The body of the inner loop of \<^verbatim>\<open>ServeHTTP\<close>: the goroutines started for one event.\<close>

definition switch_msg ::
  "'c Messenger \<Rightarrow> ('m, 'd, 'p, 'o, 'r) MessagingEvent \<Rightarrow>
   ('c, 'm, 'd, 'p, 'o, 'r) goroutine list" where
  "switch_msg msng msg =
     (let userID = ID (Sender msg) in
      if Message msg \<noteq> None \<and> MessageReceived msng \<noteq> None then
        [go_MessageReceived (the (MessageReceived msng)) msng userID (the (Message msg))]
      else if Delivery msg \<noteq> None \<and> DeliveryReceived msng \<noteq> None then
        [go_DeliveryReceived (the (DeliveryReceived msng)) msng userID (the (Delivery msg))]
      else if Postback msg \<noteq> None \<and> PostbackReceived msng \<noteq> None then
        [go_PostbackReceived (the (PostbackReceived msng)) msng userID (the (Postback msg))]
      else if Optin msg \<noteq> None \<and> OptinReceived msng \<noteq> None then
        [go_OptinReceived (the (OptinReceived msng)) msng userID (the (Optin msg))]
      else if Read msg \<noteq> None \<and> ReadReceived msng \<noteq> None then
        [go_ReadReceived (the (ReadReceived msng)) msng userID (the (Read msg))]
      else [])"

text \<open>The two loops, in array order.\<close>

fun range_Messaging ::
  "'c Messenger \<Rightarrow> ('m, 'd, 'p, 'o, 'r) MessagingEvent list \<Rightarrow>
   ('c, 'm, 'd, 'p, 'o, 'r) goroutine list" where
  "range_Messaging msng [] = []"
| "range_Messaging msng (msg # msgs) = switch_msg msng msg @ range_Messaging msng msgs"

fun range_Entry ::
  "'c Messenger \<Rightarrow> ('m, 'd, 'p, 'o, 'r) EntryItem list \<Rightarrow>
   ('c, 'm, 'd, 'p, 'o, 'r) goroutine list" where
  "range_Entry msng [] = []"
| "range_Entry msng (entry # entries) =
     range_Messaging msng (Messaging entry) @ range_Entry msng entries"

text \<open>
  \<^verbatim>\<open>ServeHTTP\<close> returns nothing; its effects are the response written, the state of the
  request body and the goroutines started, in the order of the \<^verbatim>\<open>go\<close> statements.
\<close>

definition ServeHTTP ::
  "('m, 'd, 'p, 'o, 'r) FacebookRequest decoder \<Rightarrow> 'c Messenger \<Rightarrow> ResponseWriter \<Rightarrow>
   Request \<Rightarrow> ResponseWriter \<times> Request \<times> ('c, 'm, 'd, 'p, 'o, 'r) goroutine list" where
  "ServeHTTP dec msng w r =
     (let (r', fbRq, _) = DecodeRequest dec r;
          w' = VerifyWebhook msng w r'
      in (w', r', range_Entry msng (Entry fbRq)))"

section \<open>Outbound messages\<close>

text \<open>
  Modelled from the spec: the response types are declared outside \<^verbatim>\<open>messenger.go\<close>. The
  spec gives a success a message id and a recipient id and a platform error a code and a
  message. \<^verbatim>\<open>rawFBResponse\<close> is the decoded body: the two ids and a pointer to the error
  object, nil when the body has none. It is written as an extension of
  \<^verbatim>\<open>FacebookResponse\<close>, so that both structs have the fields \<open>MessageID\<close> and
  \<open>RecipientID\<close> as in the source.
\<close>

record FacebookResponse =
  MessageID :: string
  RecipientID :: int64

record FacebookError =
  fb_code :: int
  fb_message :: string

record rawFBResponse = FacebookResponse +
  Error :: "FacebookError option"

definition zero_FacebookResponse :: FacebookResponse where
  "zero_FacebookResponse = \<lparr>MessageID = [], RecipientID = 0\<rparr>"

definition zero_rawFBResponse :: rawFBResponse where
  "zero_rawFBResponse = \<lparr>MessageID = [], RecipientID = 0, Error = None\<rparr>"

text \<open>
  Modelled from the spec: the method \<^verbatim>\<open>Error()\<close> of the platform error is declared
  outside \<^verbatim>\<open>messenger.go\<close>; the spec says the failure carries the platform's message and
  code.
\<close>

definition FacebookError_Error :: "FacebookError \<Rightarrow> error" where
  "FacebookError_Error e = PlatformError (fb_code e) (fb_message e)"

text \<open>\<^verbatim>\<open>decodeResponse\<close>, with the response in the state the call leaves it in.\<close>

definition decodeResponse ::
  "rawFBResponse decoder \<Rightarrow> Response \<Rightarrow> Response \<times> FacebookResponse \<times> error option" where
  "decodeResponse dec r =
     (let (n, fbResp, err) = dec (RespBody r) zero_rawFBResponse;
          r' = r\<lparr>RespBody := Close (Read_n n (RespBody r))\<rparr>
      in if err \<noteq> None then (r', zero_FacebookResponse, err)
         else if Error fbResp \<noteq> None then
           (r', zero_FacebookResponse, Some (FacebookError_Error (the (Error fbResp))))
         else (r', \<lparr>MessageID = MessageID fbResp, RecipientID = RecipientID fbResp\<rparr>, None))"

text \<open>
  The standard library as \<^verbatim>\<open>SendMessage\<close> uses it. A Go function returning a pointer
  and an error returns \<open>Inl e\<close> for (nil, e) and \<open>Inr x\<close> for (x, nil). \<open>'msg\<close> is the
  type of outbound messages.
\<close>

record ('c, 'msg) stdlib =
  json_Marshal :: "'msg \<Rightarrow> error + string"
  http_NewRequest :: "string \<Rightarrow> string \<Rightarrow> string \<Rightarrow> error + Request"
  zero_Client :: 'c
  Client_Do :: "'c \<Rightarrow> Request \<Rightarrow> error + Response"
  json_Decode :: "rawFBResponse decoder"

text \<open>Lines 63 to 69: the URL is built when the cached one is empty.\<close>

definition init_apiURL :: "string \<Rightarrow> 'c Messenger \<Rightarrow> 'c Messenger" where
  "init_apiURL TestURL msng =
     (if apiURL msng = [] then
        (if TestURL \<noteq> [] then
           msng\<lparr>apiURL := TestURL @ ''me/messages?access_token='' @ AccessToken msng\<rparr>
         else msng\<lparr>apiURL := const_apiURL @ ''me/messages?access_token='' @ AccessToken msng\<rparr>)
      else msng)"

text \<open>Line 71: the error of \<^verbatim>\<open>json.Marshal\<close> is dropped; the bytes are nil with an error.\<close>

definition marshal_bytes :: "('c, 'msg) stdlib \<Rightarrow> 'msg \<Rightarrow> string" where
  "marshal_bytes lib m = (case json_Marshal lib m of Inl _ \<Rightarrow> [] | Inr s \<Rightarrow> s)"

text \<open>
  \<^verbatim>\<open>SendMessage\<close>. \<open>TestURL\<close> is the package variable. The result is the adapter after
  the call (the receiver is a pointer), the lines logged, and either a panic or the two
  values returned. The error of \<^verbatim>\<open>http.NewRequest\<close> is never read, and
  \<^verbatim>\<open>req.Header.Set\<close> dereferences \<^verbatim>\<open>req\<close>.
\<close>

definition SendMessage ::
  "string \<Rightarrow> ('c, 'msg) stdlib \<Rightarrow> 'c Messenger \<Rightarrow> 'msg \<Rightarrow>
   'c Messenger \<times> string list \<times> (panic + FacebookResponse \<times> error option)" where
  "SendMessage TestURL lib msng m =
     (let msng1 = init_apiURL TestURL msng;
          s = marshal_bytes lib m;
          logged = [''MESSAGE: '' @ s]
      in case http_NewRequest lib ''POST'' (apiURL msng1) s of
           Inl _ \<Rightarrow> (msng1, logged, Inl NilPointerDereference)
         | Inr req \<Rightarrow>
            (let req1 = req\<lparr>Header := (Header req)(''Content-Type'' \<mapsto> [''application/json''])\<rparr>;
                 (msng2, client) = GetClient (zero_Client lib) msng1
             in case Client_Do lib client req1 of
                  Inl err \<Rightarrow> (msng2, logged, Inr (zero_FacebookResponse, Some err))
                | Inr resp \<Rightarrow>
                   (let (resp', fbResp, e) = decodeResponse (json_Decode lib) resp
                    in (msng2, logged, Inr (fbResp, e)))))"

text \<open>
  Modelled from the spec: the text message type, \<^verbatim>\<open>NewTextMessage\<close> and the JSON encoding
  of a message are declared outside \<^verbatim>\<open>messenger.go\<close>. The spec gives a message a
  recipient identifier and a text, and the envelope
  \<^verbatim>\<open>{"recipient":{"id":R},"message":{"text":T}}\<close>.
\<close>

datatype json = JNumber int | JString string | JObject "(string \<times> json) list"

record TextMessage =
  Recipient :: int64
  Text :: string

definition NewTextMessage :: "'c Messenger \<Rightarrow> int64 \<Rightarrow> string \<Rightarrow> TextMessage" where
  "NewTextMessage msng userID text = \<lparr>Recipient = userID, Text = text\<rparr>"

definition TextMessage_json :: "TextMessage \<Rightarrow> json" where
  "TextMessage_json m =
     JObject [(''recipient'', JObject [(''id'', JNumber (sint (Recipient m)))]),
              (''message'', JObject [(''text'', JString (Text m))])]"

text \<open>
  \<^verbatim>\<open>SendTextMessage\<close> has a value receiver: it sends from a copy of the adapter, and what
  \<^verbatim>\<open>SendMessage\<close> stores in the copy is lost when it returns.
\<close>

definition SendTextMessage ::
  "string \<Rightarrow> ('c, TextMessage) stdlib \<Rightarrow> 'c Messenger \<Rightarrow> int64 \<Rightarrow> string \<Rightarrow>
   string list \<times> (panic + FacebookResponse \<times> error option)" where
  "SendTextMessage TestURL lib msng receiverID text =
     (let m = NewTextMessage msng receiverID text;
          (msng', logged, res) = SendMessage TestURL lib msng m
      in (logged, res))"

section \<open>The dispatch rule in the words of the specification\<close>

text \<open>
  The variants of an event that can fire, in the order Message, Delivery, Postback, Optin,
  Read: a variant is in the list when it is populated and its handler is registered.
\<close>

definition ready_calls ::
  "'c Messenger \<Rightarrow> ('m, 'd, 'p, 'o, 'r) MessagingEvent \<Rightarrow>
   ('c, 'm, 'd, 'p, 'o, 'r) goroutine list" where
  "ready_calls msng msg =
     (case (Message msg, MessageReceived msng) of
        (Some m, Some h) \<Rightarrow> [go_MessageReceived h msng (ID (Sender msg)) m] | _ \<Rightarrow> []) @
     (case (Delivery msg, DeliveryReceived msng) of
        (Some d, Some h) \<Rightarrow> [go_DeliveryReceived h msng (ID (Sender msg)) d] | _ \<Rightarrow> []) @
     (case (Postback msg, PostbackReceived msng) of
        (Some p, Some h) \<Rightarrow> [go_PostbackReceived h msng (ID (Sender msg)) p] | _ \<Rightarrow> []) @
     (case (Optin msg, OptinReceived msng) of
        (Some p, Some h) \<Rightarrow> [go_OptinReceived h msng (ID (Sender msg)) p] | _ \<Rightarrow> []) @
     (case (Read msg, ReadReceived msng) of
        (Some p, Some h) \<Rightarrow> [go_ReadReceived h msng (ID (Sender msg)) p] | _ \<Rightarrow> [])"

text \<open>
  The rule as the specification words it: the first populated variant in the order is
  selected, and the event is skipped when the handler of that variant is nil.
\<close>

definition first_populated_call ::
  "'c Messenger \<Rightarrow> ('m, 'd, 'p, 'o, 'r) MessagingEvent \<Rightarrow>
   ('c, 'm, 'd, 'p, 'o, 'r) goroutine list" where
  "first_populated_call msng msg =
     (case Message msg of
        Some m \<Rightarrow> (case MessageReceived msng of
                     Some h \<Rightarrow> [go_MessageReceived h msng (ID (Sender msg)) m] | None \<Rightarrow> [])
      | None \<Rightarrow>
     (case Delivery msg of
        Some d \<Rightarrow> (case DeliveryReceived msng of
                     Some h \<Rightarrow> [go_DeliveryReceived h msng (ID (Sender msg)) d] | None \<Rightarrow> [])
      | None \<Rightarrow>
     (case Postback msg of
        Some p \<Rightarrow> (case PostbackReceived msng of
                     Some h \<Rightarrow> [go_PostbackReceived h msng (ID (Sender msg)) p] | None \<Rightarrow> [])
      | None \<Rightarrow>
     (case Optin msg of
        Some p \<Rightarrow> (case OptinReceived msng of
                     Some h \<Rightarrow> [go_OptinReceived h msng (ID (Sender msg)) p] | None \<Rightarrow> [])
      | None \<Rightarrow>
     (case Read msg of
        Some p \<Rightarrow> (case ReadReceived msng of
                     Some h \<Rightarrow> [go_ReadReceived h msng (ID (Sender msg)) p] | None \<Rightarrow> [])
      | None \<Rightarrow> [])))))"

text \<open>How many of the five variants of an event are populated.\<close>

definition populated :: "('m, 'd, 'p, 'o, 'r) MessagingEvent \<Rightarrow> nat" where
  "populated msg =
     (if Message msg = None then 0 else 1) + (if Delivery msg = None then 0 else 1) +
     (if Postback msg = None then 0 else 1) + (if Optin msg = None then 0 else 1) +
     (if Read msg = None then 0 else 1)"

text \<open>No populated variant of the event has a registered handler.\<close>

definition unhandled :: "'c Messenger \<Rightarrow> ('m, 'd, 'p, 'o, 'r) MessagingEvent \<Rightarrow> bool" where
  "unhandled msng msg =
     ((Message msg = None \<or> MessageReceived msng = None) \<and>
      (Delivery msg = None \<or> DeliveryReceived msng = None) \<and>
      (Postback msg = None \<or> PostbackReceived msng = None) \<and>
      (Optin msg = None \<or> OptinReceived msng = None) \<and>
      (Read msg = None \<or> ReadReceived msng = None))"

section \<open>Concrete inputs\<close>

text \<open>
  An adapter with verify token \<^verbatim>\<open>abc\<close> and no handler, the same adapter with a handler
  for delivery reports only and with a handler for messages only, and an adapter whose
  access token ends with a line feed.
\<close>

definition adapter_abc :: "unit Messenger" where
  "adapter_abc = (New ''token'' ''page'')\<lparr>VerifyToken := ''abc''\<rparr>"

definition adapter_delivery :: "unit Messenger" where
  "adapter_delivery = adapter_abc\<lparr>DeliveryReceived := Some (FuncValue 1)\<rparr>"

definition adapter_message :: "unit Messenger" where
  "adapter_message = adapter_abc\<lparr>MessageReceived := Some (FuncValue 1)\<rparr>"

definition adapter_lf :: "unit Messenger" where
  "adapter_lf = New (''token'' @ [CHR 0x0A]) ''page''"

text \<open>A request with the given query parameters and body.\<close>

definition request_of :: "(string \<times> string) list \<Rightarrow> string \<Rightarrow> Request" where
  "request_of query body =
     \<lparr>Method = ''POST'', URL = ''/webhook'', Header = Map.empty,
      Form = map_of (map (\<lambda>(k, v). (k, [v])) query),
      Body = \<lparr>unread = body, closed = False\<rparr>\<rparr>"

text \<open>An event of user 7 with a message and a delivery report.\<close>

definition event_7 :: "(string, string, string, string, string) MessagingEvent" where
  "event_7 = \<lparr>Sender = \<lparr>ID = 7\<rparr>, Message = Some ''hi'', Delivery = Some ''seen'',
              Postback = None, Optin = None, Read = None\<rparr>"

text \<open>
  A decoder that accepts the whole body and decodes it to one entry with the given events.
\<close>

definition decoder_of ::
  "('m, 'd, 'p, 'o, 'r) MessagingEvent list \<Rightarrow> ('m, 'd, 'p, 'o, 'r) FacebookRequest decoder" where
  "decoder_of msgs rd v = (length (unread rd), v\<lparr>Entry := [\<lparr>Messaging = msgs\<rparr>]\<rparr>, None)"

text \<open>
  A decoder on a body whose entries are well typed and in which a later member has the
  wrong type: \<^verbatim>\<open>encoding/json\<close> stores the members it can decode and returns the error of
  the first mismatch.
\<close>

definition mismatch_decoder ::
  "('m, 'd, 'p, 'o, 'r) MessagingEvent list \<Rightarrow> ('m, 'd, 'p, 'o, 'r) FacebookRequest decoder" where
  "mismatch_decoder msgs rd v =
     (length (unread rd), v\<lparr>Entry := [\<lparr>Messaging = msgs\<rparr>]\<rparr>,
      Some (LibraryError ''json: cannot unmarshal number into Go struct field''))"

text \<open>
  A decoder on a body that does not start a JSON value: it takes one buffer of at most 512
  bytes from the reader, rejects its first byte and leaves the value as it was.
\<close>

definition syntax_error_decoder :: "'v decoder" where
  "syntax_error_decoder rd v =
     (min 512 (length (unread rd)), v, Some (LibraryError ''invalid character''))"

text \<open>A decoded send response with an error object and one without.\<close>

definition raw_error :: rawFBResponse where
  "raw_error = \<lparr>MessageID = ''mid.1'', RecipientID = 7,
                Error = Some \<lparr>fb_code = 100, fb_message = ''Invalid parameter''\<rparr>\<rparr>"

definition raw_ok :: rawFBResponse where
  "raw_ok = \<lparr>MessageID = ''mid.1'', RecipientID = 7, Error = None\<rparr>"

text \<open>
  A standard library for the examples: messages are marshalled to a fixed text, a URL with
  a line feed is refused by \<^verbatim>\<open>http.NewRequest\<close>, and the transport answers every request
  with the given body, which the decoder reads as the given value.
\<close>

definition example_lib :: "string \<Rightarrow> rawFBResponse \<Rightarrow> (unit, 'msg) stdlib" where
  "example_lib body raw =
     \<lparr>json_Marshal = (\<lambda>m. Inr ''{}''),
      http_NewRequest = (\<lambda>method url b.
         if CHR 0x0A \<in> set url then Inl (LibraryError ''net/url: invalid control character in URL'')
         else Inr \<lparr>Method = method, URL = url, Header = Map.empty, Form = Map.empty,
                   Body = \<lparr>unread = b, closed = False\<rparr>\<rparr>),
      zero_Client = (),
      Client_Do = (\<lambda>c req. Inr \<lparr>RespBody = \<lparr>unread = body, closed = False\<rparr>\<rparr>),
      json_Decode = (\<lambda>rd v. (length (unread rd), raw, None))\<rparr>"

section \<open>Auxiliary facts\<close>

subsection \<open>The switch of the dispatcher\<close>

lemma take_1_guarded:
  "take (Suc 0) ((if c then [x] else []) @ ys) = (if c then [x] else take (Suc 0) ys)"
  by simp

lemma take_1_guarded_last:
  "take (Suc 0) (if c then [x] else []) = (if c then [x] else [])"
  by simp

lemma case_pair_guarded:
  "(case (a, b) of (Some x, Some h) \<Rightarrow> [f h x] | _ \<Rightarrow> []) =
   (if a \<noteq> None \<and> b \<noteq> None then [f (the b) (the a)] else [])"
  by (cases a; cases b; simp)

lemma ready_calls_guarded:
  "ready_calls msng msg =
     (if Message msg \<noteq> None \<and> MessageReceived msng \<noteq> None
      then [go_MessageReceived (the (MessageReceived msng)) msng (ID (Sender msg)) (the (Message msg))]
      else []) @
     (if Delivery msg \<noteq> None \<and> DeliveryReceived msng \<noteq> None
      then [go_DeliveryReceived (the (DeliveryReceived msng)) msng (ID (Sender msg)) (the (Delivery msg))]
      else []) @
     (if Postback msg \<noteq> None \<and> PostbackReceived msng \<noteq> None
      then [go_PostbackReceived (the (PostbackReceived msng)) msng (ID (Sender msg)) (the (Postback msg))]
      else []) @
     (if Optin msg \<noteq> None \<and> OptinReceived msng \<noteq> None
      then [go_OptinReceived (the (OptinReceived msng)) msng (ID (Sender msg)) (the (Optin msg))]
      else []) @
     (if Read msg \<noteq> None \<and> ReadReceived msng \<noteq> None
      then [go_ReadReceived (the (ReadReceived msng)) msng (ID (Sender msg)) (the (Read msg))]
      else [])"
  unfolding ready_calls_def
  by (simp only: case_pair_guarded [where f = "\<lambda>h x. go_MessageReceived h msng (ID (Sender msg)) x"]
      case_pair_guarded [where f = "\<lambda>h x. go_DeliveryReceived h msng (ID (Sender msg)) x"]
      case_pair_guarded [where f = "\<lambda>h x. go_PostbackReceived h msng (ID (Sender msg)) x"]
      case_pair_guarded [where f = "\<lambda>h x. go_OptinReceived h msng (ID (Sender msg)) x"]
      case_pair_guarded [where f = "\<lambda>h x. go_ReadReceived h msng (ID (Sender msg)) x"])

lemma switch_msg_ready: "switch_msg msng msg = take 1 (ready_calls msng msg)"
  unfolding ready_calls_guarded switch_msg_def Let_def One_nat_def
  by (simp only: take_1_guarded take_1_guarded_last)

lemma switch_msg_single:
  "populated msg \<le> 1 \<Longrightarrow> switch_msg msng msg = first_populated_call msng msg"
  apply (cases "Message msg"; cases "Delivery msg"; cases "Postback msg"; cases "Optin msg";
      cases "Read msg"; simp add: populated_def)
       apply (simp_all add: switch_msg_def first_populated_call_def split: option.splits)
  done

lemma switch_msg_unhandled: "unhandled msng msg \<Longrightarrow> switch_msg msng msg = []"
  by (auto simp: unhandled_def switch_msg_def)

lemma populated_0_unhandled: "populated msg = 0 \<Longrightarrow> unhandled msng msg"
  by (simp add: populated_def unhandled_def split: if_splits)

subsection \<open>The loops of the dispatcher\<close>

lemma range_Messaging_concat: "range_Messaging msng msgs = concat (map (switch_msg msng) msgs)"
  by (induction msgs) simp_all

lemma range_Entry_concat:
  "range_Entry msng entries = range_Messaging msng (concat (map Messaging entries))"
  by (induction entries) (simp_all add: range_Messaging_concat)

lemma range_Messaging_unhandled:
  "\<forall>msg\<in>set msgs. unhandled msng msg \<Longrightarrow> range_Messaging msng msgs = []"
  by (induction msgs) (simp_all add: switch_msg_unhandled)

lemma ServeHTTP_goroutines:
  "dec (Body r) zero_FacebookRequest = (n, fbRq, err) \<Longrightarrow>
   snd (snd (ServeHTTP dec msng w r)) = range_Entry msng (Entry fbRq)"
  by (simp add: ServeHTTP_def DecodeRequest_def)

subsection \<open>Sending\<close>

lemma decodeResponse_result:
  "dec (RespBody r) zero_rawFBResponse = (n, raw, None) \<Longrightarrow>
   snd (decodeResponse dec r) =
     (case Error raw of
        Some e \<Rightarrow> (zero_FacebookResponse, Some (PlatformError (fb_code e) (fb_message e)))
      | None \<Rightarrow> (\<lparr>MessageID = MessageID raw, RecipientID = RecipientID raw\<rparr>, None))"
  by (simp add: decodeResponse_def FacebookError_Error_def split: option.splits)

lemma SendMessage_decodes:
  assumes "http_NewRequest lib ''POST'' (apiURL (init_apiURL TestURL msng)) (marshal_bytes lib m)
             = Inr req"
    and "Client_Do lib (snd (GetClient (zero_Client lib) (init_apiURL TestURL msng)))
           (req\<lparr>Header := (Header req)(''Content-Type'' \<mapsto> [''application/json''])\<rparr>) = Inr resp"
  shows "snd (snd (SendMessage TestURL lib msng m)) =
           Inr (snd (decodeResponse (json_Decode lib) resp))"
  using assms by (simp add: SendMessage_def Let_def case_prod_beta)

lemma SendMessage_apiURL: "apiURL (fst (SendMessage TestURL lib msng m)) = apiURL (init_apiURL TestURL msng)"
  by (simp add: SendMessage_def GetClient_def Let_def case_prod_beta split: sum.splits)

lemma init_apiURL_cached: "apiURL msng \<noteq> [] \<Longrightarrow> init_apiURL TestURL msng = msng"
  by (simp add: init_apiURL_def)

lemma SendMessage_init: "SendMessage TestURL lib msng m = SendMessage T' lib (init_apiURL TestURL msng) m"
proof -
  have "init_apiURL T' (init_apiURL TestURL msng) = init_apiURL TestURL msng"
    by (rule init_apiURL_cached) (simp add: init_apiURL_def)
  then show ?thesis by (simp add: SendMessage_def)
qed

section \<open>The dispatcher\<close>

text \<open>
  C1 (as amended). For every messaging event the dispatcher starts the first variant in
  the order Message, Delivery, Postback, Optin, Read that is populated and whose handler is
  registered, and nothing else: the goroutines of an event are the first element, if any,
  of \<open>ready_calls\<close>. When at most one variant is populated this is the rule of the
  specification: the first populated variant is selected and the event is skipped when
  its handler is nil.
\<close>

theorem dispatch_first_ready_variant:
  "switch_msg msng msg = take 1 (ready_calls msng msg) \<and>
   (populated msg \<le> 1 \<longrightarrow> switch_msg msng msg = first_populated_call msng msg)"
  using switch_msg_ready switch_msg_single by blast

text \<open>
  The rule at an event with a message only and at an event with a message and a delivery
  report, for an adapter that handles delivery reports only.
\<close>

theorem dispatch_first_ready_variant_witness:
  "populated (event_7\<lparr>Delivery := None\<rparr>) \<le> 1 \<and>
   switch_msg adapter_delivery (event_7\<lparr>Delivery := None\<rparr>) = [] \<and>
   first_populated_call adapter_delivery (event_7\<lparr>Delivery := None\<rparr>) = [] \<and>
   take 1 (ready_calls adapter_delivery event_7) =
     [go_DeliveryReceived (FuncValue 1) adapter_delivery 7 ''seen'']"
  using dispatch_first_ready_variant [of adapter_delivery "event_7\<lparr>Delivery := None\<rparr>"]
    dispatch_first_ready_variant [of adapter_delivery event_7]
  by (simp add: populated_def event_7_def first_populated_call_def switch_msg_def
      adapter_delivery_def adapter_abc_def New_def)

text \<open>
  With a message and a delivery report populated and a handler for delivery reports only,
  the rule of the specification skips the event, and the switch starts the delivery
  handler: a populated variant whose handler is nil is passed over.
\<close>

theorem dispatch_first_populated_counterexample:
  "Message event_7 = Some ''hi'' \<and> MessageReceived adapter_delivery = None \<and>
   first_populated_call adapter_delivery event_7 = [] \<and>
   switch_msg adapter_delivery event_7 =
     [go_DeliveryReceived (FuncValue 1) adapter_delivery 7 ''seen'']"
  by (simp add: first_populated_call_def switch_msg_def event_7_def adapter_delivery_def
      adapter_abc_def New_def)

text \<open>
  C4. When every event of the decoded request has no populated variant, or has no
  registered handler for a populated variant, \<^verbatim>\<open>ServeHTTP\<close> starts no goroutine. The
  function has no error result and no panic.
\<close>

theorem unhandled_events_dropped:
  assumes "dec (Body r) zero_FacebookRequest = (n, fbRq, err)"
    and "\<forall>msg\<in>set (concat (map Messaging (Entry fbRq))).
           populated msg = 0 \<or> unhandled msng msg"
  shows "snd (snd (ServeHTTP dec msng w r)) = []"
proof -
  have "\<forall>msg\<in>set (concat (map Messaging (Entry fbRq))). unhandled msng msg"
    using assms(2) populated_0_unhandled by blast
  then have "range_Entry msng (Entry fbRq) = []"
    unfolding range_Entry_concat by (rule range_Messaging_unhandled)
  with ServeHTTP_goroutines [of dec r n fbRq err msng w] assms(1) show ?thesis by simp
qed

text \<open>
  A request with an empty event and an event with two populated variants, for an adapter
  without handlers.
\<close>

theorem unhandled_events_dropped_witness:
  "populated (event_7\<lparr>Message := None, Delivery := None\<rparr>) = 0 \<and>
   unhandled adapter_abc event_7 \<and>
   snd (snd (ServeHTTP (decoder_of [event_7\<lparr>Message := None, Delivery := None\<rparr>, event_7])
     adapter_abc [] (request_of [] ''body''))) = []"
proof -
  let ?e = "event_7\<lparr>Message := None, Delivery := None\<rparr>"
  have p: "populated ?e = 0"
    by (simp add: populated_def event_7_def)
  have u: "unhandled adapter_abc event_7"
    by (simp add: unhandled_def adapter_abc_def New_def)
  have d: "decoder_of [?e, event_7] (Body (request_of [] ''body'')) zero_FacebookRequest =
             (4, \<lparr>Entry = [\<lparr>Messaging = [?e, event_7]\<rparr>]\<rparr>, None)"
    by (simp add: decoder_of_def request_of_def zero_FacebookRequest_def)
  have a: "\<forall>msg\<in>set (concat (map Messaging (Entry \<lparr>Entry = [\<lparr>Messaging = [?e, event_7]\<rparr>]\<rparr>))).
          populated msg = 0 \<or> unhandled adapter_abc msg"
    using p u by simp
  show ?thesis
    using unhandled_events_dropped [where dec = "decoder_of [?e, event_7]"
        and r = "request_of [] ''body''" and msng = adapter_abc and w = "[]", OF d a] p u
    by simp
qed

text \<open>
  C5. When the decoded request holds exactly one event, its only populated variant is
  Message and the handler \<open>MessageReceived\<close> is registered, \<^verbatim>\<open>ServeHTTP\<close> starts
  exactly one goroutine: that handler, with the adapter, the sender id of the event and
  the message. No other handler is started.
\<close>

theorem single_message_event_dispatched:
  assumes "dec (Body r) zero_FacebookRequest = (n, fbRq, err)"
    and "concat (map Messaging (Entry fbRq)) = [msg]"
    and "Message msg = Some m" and "Delivery msg = None" and "Postback msg = None"
    and "Optin msg = None" and "Read msg = None"
    and "MessageReceived msng = Some h"
  shows "snd (snd (ServeHTTP dec msng w r)) = [go_MessageReceived h msng (ID (Sender msg)) m]"
proof -
  have "switch_msg msng msg = [go_MessageReceived h msng (ID (Sender msg)) m]"
    using assms(3,8) by (simp add: switch_msg_def)
  then have "range_Entry msng (Entry fbRq) = [go_MessageReceived h msng (ID (Sender msg)) m]"
    unfolding range_Entry_concat assms(2) by simp
  with ServeHTTP_goroutines [of dec r n fbRq err msng w] assms(1) show ?thesis by simp
qed

text \<open>
  A request with one message event of user 7.
\<close>

theorem single_message_event_dispatched_witness:
  "snd (snd (ServeHTTP (decoder_of [event_7\<lparr>Delivery := None\<rparr>]) adapter_message []
     (request_of [] ''body''))) = [go_MessageReceived (FuncValue 1) adapter_message 7 ''hi'']"
proof -
  let ?e = "event_7\<lparr>Delivery := None\<rparr>"
  have d: "decoder_of [?e] (Body (request_of [] ''body'')) zero_FacebookRequest =
             (4, \<lparr>Entry = [\<lparr>Messaging = [?e]\<rparr>]\<rparr>, None)"
    by (simp add: decoder_of_def request_of_def zero_FacebookRequest_def)
  have c: "concat (map Messaging (Entry \<lparr>Entry = [\<lparr>Messaging = [?e]\<rparr>]\<rparr>)) = [?e]"
    by simp
  have h: "MessageReceived adapter_message = Some (FuncValue 1)"
    by (simp add: adapter_message_def)
  show ?thesis
    using single_message_event_dispatched [where dec = "decoder_of [?e]"
        and r = "request_of [] ''body''" and msng = adapter_message and w = "[]"
        and m = "''hi''", OF d c _ _ _ _ _ h]
    by (simp add: event_7_def)
qed

section \<open>Decoding the webhook request\<close>

text \<open>
  C6 (as amended). When the decoder returns an error, \<^verbatim>\<open>ServeHTTP\<close> behaves as if it
  had returned none: the error is dropped, and the events dispatched are those of the value
  the decoder left in the request. When that value is the zero value no goroutine is
  started.
\<close>

theorem decode_error_discarded:
  assumes "dec (Body r) zero_FacebookRequest = (n, fbRq, Some e)"
  shows "ServeHTTP dec msng w r = ServeHTTP (\<lambda>rd v. (n, fbRq, None)) msng w r \<and>
         snd (snd (ServeHTTP dec msng w r)) = range_Entry msng (Entry fbRq) \<and>
         (fbRq = zero_FacebookRequest \<longrightarrow> snd (snd (ServeHTTP dec msng w r)) = [])"
  using assms by (simp add: ServeHTTP_def DecodeRequest_def zero_FacebookRequest_def)

text \<open>
  A body that does not start a JSON value: the decoder leaves the zero value.
\<close>

theorem decode_error_discarded_witness:
  "snd (snd (ServeHTTP syntax_error_decoder adapter_message [] (request_of [] ''oops''))) =
     ([] :: (unit, string, string, string, string, string) goroutine list)"
proof -
  let ?dec = "syntax_error_decoder :: (string, string, string, string, string) FacebookRequest decoder"
  have d: "?dec (Body (request_of [] ''oops'')) zero_FacebookRequest =
             (4, zero_FacebookRequest, Some (LibraryError ''invalid character''))"
    by (simp add: syntax_error_decoder_def request_of_def)
  show ?thesis
    using decode_error_discarded [where dec = ?dec and r = "request_of [] ''oops''"
        and msng = adapter_message and w = "[]", OF d]
    by blast
qed

text \<open>
  A decoder that stores an entry before it fails on a later member: the decode error is
  not nil, the request is not the zero value, and its event is dispatched.
\<close>

theorem decode_error_dispatch_counterexample:
  "snd (snd (mismatch_decoder [event_7] (Body (request_of [] ''body'')) zero_FacebookRequest))
     = Some (LibraryError ''json: cannot unmarshal number into Go struct field'') \<and>
   snd (snd (ServeHTTP (mismatch_decoder [event_7]) adapter_message [] (request_of [] ''body'')))
     = [go_MessageReceived (FuncValue 1) adapter_message 7 ''hi'']"
  by (simp add: ServeHTTP_def DecodeRequest_def mismatch_decoder_def switch_msg_def
      event_7_def adapter_message_def)

text \<open>
  C7 (as amended). \<^verbatim>\<open>DecodeRequest\<close> closes the body on every path. It takes from the
  body what the decoder reads, and returns the value the decoder left in the request
  together with the error of the decoder.
\<close>

theorem DecodeRequest_closes:
  "closed (Body (fst (DecodeRequest dec r))) \<and>
   (dec (Body r) zero_FacebookRequest = (n, fbRq, err) \<longrightarrow>
    DecodeRequest dec r =
      (r\<lparr>Body := \<lparr>unread = drop n (unread (Body r)), closed = True\<rparr>\<rparr>, fbRq, err))"
  by (simp add: DecodeRequest_def Close_def Read_n_def case_prod_beta)

text \<open>
  A decoder that fails after it has stored an entry.
\<close>

theorem DecodeRequest_closes_witness:
  "DecodeRequest (mismatch_decoder [event_7]) (request_of [] ''body'') =
     ((request_of [] ''body'')\<lparr>Body := \<lparr>unread = [], closed = True\<rparr>\<rparr>,
      \<lparr>Entry = [\<lparr>Messaging = [event_7]\<rparr>]\<rparr>,
      Some (LibraryError ''json: cannot unmarshal number into Go struct field''))"
  using DecodeRequest_closes [where dec = "mismatch_decoder [event_7]"
      and r = "request_of [] ''body''" and n = 4
      and fbRq = "\<lparr>Entry = [\<lparr>Messaging = [event_7]\<rparr>]\<rparr>"
      and err = "Some (LibraryError ''json: cannot unmarshal number into Go struct field'')"]
  by (simp add: mismatch_decoder_def request_of_def zero_FacebookRequest_def)

text \<open>
  A body of 600 bytes that does not start a JSON value is closed with 88 bytes unread,
  and a decoder that fails after it has stored an entry makes \<^verbatim>\<open>DecodeRequest\<close> return
  a request that is not the zero value together with the error.
\<close>

theorem DecodeRequest_counterexample:
  "unread (Body (fst (DecodeRequest
      (syntax_error_decoder :: (unit, unit, unit, unit, unit) FacebookRequest decoder)
      (request_of [] (replicate 600 CHR ''x''))))) = replicate 88 CHR ''x'' \<and>
   snd (DecodeRequest (mismatch_decoder [event_7]) (request_of [] ''body'')) =
     (\<lparr>Entry = [\<lparr>Messaging = [event_7]\<rparr>]\<rparr>,
      Some (LibraryError ''json: cannot unmarshal number into Go struct field''))"
  by (simp add: DecodeRequest_def syntax_error_decoder_def mismatch_decoder_def request_of_def
      Close_def Read_n_def zero_FacebookRequest_def)

section \<open>Webhook verification\<close>

text \<open>
  C2. \<^verbatim>\<open>VerifyWebhook\<close> appends the value of \<^verbatim>\<open>hub.challenge\<close> to the response when
  the form value \<^verbatim>\<open>hub.mode\<close> is \<^verbatim>\<open>subscribe\<close> and the form value
  \<^verbatim>\<open>hub.verify_token\<close> is the verify token of the adapter, and writes nothing in every
  other case. A missing parameter has the empty string as its form value.
\<close>

theorem VerifyWebhook_body:
  "VerifyWebhook msng w r =
     w @ (if FormValue r ''hub.mode'' = ''subscribe'' \<and>
             FormValue r ''hub.verify_token'' = VerifyToken msng
          then FormValue r ''hub.challenge'' else [])"
  by (simp add: VerifyWebhook_def Write_def)

text \<open>
  The two scenarios: verify token \<^verbatim>\<open>abc\<close>, challenge 999, with the tokens \<^verbatim>\<open>abc\<close>
  and \<^verbatim>\<open>xyz\<close> in the query.
\<close>

theorem VerifyWebhook_body_witness:
  "VerifyWebhook adapter_abc []
     (request_of [(''hub.mode'', ''subscribe''), (''hub.verify_token'', ''abc''),
                  (''hub.challenge'', ''999'')] []) = ''999'' \<and>
   VerifyWebhook adapter_abc []
     (request_of [(''hub.mode'', ''subscribe''), (''hub.verify_token'', ''xyz''),
                  (''hub.challenge'', ''999'')] []) = []"
  using VerifyWebhook_body [of adapter_abc "[]"
      "request_of [(''hub.mode'', ''subscribe''), (''hub.verify_token'', ''abc''),
                   (''hub.challenge'', ''999'')] []"]
    VerifyWebhook_body [of adapter_abc "[]"
      "request_of [(''hub.mode'', ''subscribe''), (''hub.verify_token'', ''xyz''),
                   (''hub.challenge'', ''999'')] []"]
  by (simp add: FormValue_def request_of_def adapter_abc_def New_def)

section \<open>Sending\<close>

text \<open>
  C3. When the body of the send response decodes without error, \<^verbatim>\<open>decodeResponse\<close>,
  and \<^verbatim>\<open>SendMessage\<close> through it, return the zero response with the platform error
  built from the code and message of the error object when there is one, and the message
  id and recipient id of the body with a nil error when there is none.
\<close>

theorem decodeResponse_error_or_ids:
  assumes "json_Decode lib (RespBody resp) zero_rawFBResponse = (n, raw, None)"
    and "http_NewRequest lib ''POST'' (apiURL (init_apiURL TestURL msng)) (marshal_bytes lib m)
           = Inr req"
    and "Client_Do lib (snd (GetClient (zero_Client lib) (init_apiURL TestURL msng)))
           (req\<lparr>Header := (Header req)(''Content-Type'' \<mapsto> [''application/json''])\<rparr>) = Inr resp"
  shows "snd (decodeResponse (json_Decode lib) resp) =
           (case Error raw of
              Some e \<Rightarrow> (zero_FacebookResponse, Some (PlatformError (fb_code e) (fb_message e)))
            | None \<Rightarrow> (\<lparr>MessageID = MessageID raw, RecipientID = RecipientID raw\<rparr>, None)) \<and>
         snd (snd (SendMessage TestURL lib msng m)) =
           Inr (case Error raw of
              Some e \<Rightarrow> (zero_FacebookResponse, Some (PlatformError (fb_code e) (fb_message e)))
            | None \<Rightarrow> (\<lparr>MessageID = MessageID raw, RecipientID = RecipientID raw\<rparr>, None))"
  using decodeResponse_result [of "json_Decode lib" resp n raw] assms(1)
    SendMessage_decodes [OF assms(2,3)] by simp

text \<open>
  A response with an error object and a response without one.
\<close>

theorem decodeResponse_error_or_ids_witness:
  "snd (snd (SendMessage [] (example_lib ''body'' raw_error) adapter_abc ''hello'')) =
     Inr (\<lparr>MessageID = [], RecipientID = 0\<rparr>, Some (PlatformError 100 ''Invalid parameter'')) \<and>
   snd (snd (SendMessage [] (example_lib ''body'' raw_ok) adapter_abc ''hello'')) =
     Inr (\<lparr>MessageID = ''mid.1'', RecipientID = 7\<rparr>, None)"
proof -
  let ?url = "const_apiURL @ ''me/messages?access_token=token''"
  let ?req = "\<lparr>Method = ''POST'', URL = ?url, Header = Map.empty, Form = Map.empty,
               Body = \<lparr>unread = ''{}'', closed = False\<rparr>\<rparr>"
  let ?resp = "\<lparr>RespBody = \<lparr>unread = ''body'', closed = False\<rparr>\<rparr>"
  have url: "apiURL (init_apiURL [] adapter_abc) = ?url"
    by (simp add: init_apiURL_def adapter_abc_def New_def)
  have lf: "CHR 0x0A \<notin> set ?url"
    by (simp add: const_apiURL_def)
  have new: "http_NewRequest (example_lib ''body'' raw) ''POST''
               (apiURL (init_apiURL [] adapter_abc))
               (marshal_bytes (example_lib ''body'' raw) ''hello'') = Inr ?req" for raw
    unfolding url using lf by (simp add: example_lib_def marshal_bytes_def)
  have do: "Client_Do (example_lib ''body'' raw)
              (snd (GetClient (zero_Client (example_lib ''body'' raw)) (init_apiURL [] adapter_abc)))
              (?req\<lparr>Header := (Header ?req)(''Content-Type'' \<mapsto> [''application/json''])\<rparr>)
            = Inr ?resp" for raw
    by (simp add: example_lib_def)
  have dec: "json_Decode (example_lib ''body'' raw) (RespBody ?resp) zero_rawFBResponse
               = (4, raw, None)" for raw
    by (simp add: example_lib_def)
  show ?thesis
    using decodeResponse_error_or_ids [OF dec new do, of raw_error]
      decodeResponse_error_or_ids [OF dec new do, of raw_ok]
    by (simp add: raw_error_def raw_ok_def zero_FacebookResponse_def)
qed

text \<open>
  C8. With an empty cached URL, \<^verbatim>\<open>SendMessage\<close> stores the override followed by
  \<^verbatim>\<open>me/messages?access_token=\<close> and the access token when the override is not empty,
  and the platform base followed by the same suffix otherwise, and the call is the call
  made with that URL already cached. The URL stored is never empty. With a cached URL that
  is not empty the call keeps it and does not depend on the override, so every later call
  on the adapter uses the URL of the first one.
\<close>

theorem apiURL_built_once:
  "(apiURL msng = [] \<longrightarrow>
      apiURL (fst (SendMessage TestURL lib msng m)) =
        (if TestURL \<noteq> [] then TestURL @ ''me/messages?access_token='' @ AccessToken msng
         else const_apiURL @ ''me/messages?access_token='' @ AccessToken msng) \<and>
      SendMessage TestURL lib msng m =
        SendMessage T' lib
          (msng\<lparr>apiURL :=
             (if TestURL \<noteq> [] then TestURL @ ''me/messages?access_token='' @ AccessToken msng
              else const_apiURL @ ''me/messages?access_token='' @ AccessToken msng)\<rparr>) m) \<and>
   apiURL (fst (SendMessage TestURL lib msng m)) \<noteq> [] \<and>
   (apiURL msng \<noteq> [] \<longrightarrow>
      apiURL (fst (SendMessage TestURL lib msng m)) = apiURL msng \<and>
      SendMessage TestURL lib msng m = SendMessage T' lib msng m) \<and>
   apiURL (fst (SendMessage T' lib' (fst (SendMessage TestURL lib msng m)) m')) =
     apiURL (fst (SendMessage TestURL lib msng m))"
proof -
  have a: "apiURL (init_apiURL TestURL msng) \<noteq> []"
    by (simp add: init_apiURL_def)
  have b: "apiURL msng = [] \<longrightarrow> init_apiURL TestURL msng =
      msng\<lparr>apiURL :=
        (if TestURL \<noteq> [] then TestURL @ ''me/messages?access_token='' @ AccessToken msng
         else const_apiURL @ ''me/messages?access_token='' @ AccessToken msng)\<rparr>"
    by (simp add: init_apiURL_def)
  have c: "apiURL (fst (SendMessage T' lib' (fst (SendMessage TestURL lib msng m)) m')) =
     apiURL (fst (SendMessage TestURL lib msng m))"
    unfolding SendMessage_apiURL [of T' lib']
    using a by (simp add: SendMessage_apiURL init_apiURL_def)
  have d: "apiURL msng = [] \<longrightarrow> SendMessage TestURL lib msng m =
        SendMessage T' lib
          (msng\<lparr>apiURL :=
             (if TestURL \<noteq> [] then TestURL @ ''me/messages?access_token='' @ AccessToken msng
              else const_apiURL @ ''me/messages?access_token='' @ AccessToken msng)\<rparr>) m"
    using b SendMessage_init [of TestURL lib msng m T'] by metis
  have e: "apiURL msng \<noteq> [] \<longrightarrow> SendMessage TestURL lib msng m = SendMessage T' lib msng m"
    using SendMessage_init [of TestURL lib msng m T'] init_apiURL_cached [of msng TestURL]
    by metis
  have f: "apiURL msng \<noteq> [] \<longrightarrow> apiURL (fst (SendMessage TestURL lib msng m)) = apiURL msng"
    by (simp add: SendMessage_apiURL init_apiURL_cached)
  have g: "apiURL msng = [] \<longrightarrow> apiURL (fst (SendMessage TestURL lib msng m)) =
        (if TestURL \<noteq> [] then TestURL @ ''me/messages?access_token='' @ AccessToken msng
         else const_apiURL @ ''me/messages?access_token='' @ AccessToken msng)"
    by (simp add: SendMessage_apiURL init_apiURL_def)
  from a c d e f g show ?thesis
    unfolding SendMessage_apiURL [of TestURL lib msng m] by blast
qed

text \<open>
  A first call with an override, a first call without one, and a second call after the
  override has been cleared.
\<close>

theorem apiURL_built_once_witness:
  "apiURL (fst (SendMessage ''http://localhost/'' (example_lib ''body'' raw_ok) adapter_abc ''hello''))
     = ''http://localhost/me/messages?access_token=token'' \<and>
   apiURL (fst (SendMessage [] (example_lib ''body'' raw_ok) adapter_abc ''hello''))
     = ''https://graph.facebook.com/v2.6/me/messages?access_token=token'' \<and>
   apiURL (fst (SendMessage [] (example_lib ''body'' raw_ok)
                  (fst (SendMessage ''http://localhost/'' (example_lib ''body'' raw_ok)
                          adapter_abc ''hello'')) ''again''))
     = ''http://localhost/me/messages?access_token=token''"
proof -
  let ?lib = "example_lib ''body'' raw_ok :: (unit, string) stdlib"
  let ?url = "\<lambda>T. if T \<noteq> [] then T @ ''me/messages?access_token='' @ AccessToken adapter_abc
                  else const_apiURL @ ''me/messages?access_token='' @ AccessToken adapter_abc"
  have e: "apiURL adapter_abc = []"
    by (simp add: adapter_abc_def New_def)
  have t: "AccessToken adapter_abc = ''token''"
    by (simp add: adapter_abc_def New_def)
  have first: "apiURL (fst (SendMessage T ?lib adapter_abc ''hello'')) = ?url T" for T
    using apiURL_built_once [where msng = adapter_abc and TestURL = T and lib = ?lib
        and m = "''hello''" and T' = "[]" and lib' = ?lib and m' = "''again''"] e
    by blast
  have later: "apiURL (fst (SendMessage [] ?lib
                   (fst (SendMessage ''http://localhost/'' ?lib adapter_abc ''hello'')) ''again''))
               = apiURL (fst (SendMessage ''http://localhost/'' ?lib adapter_abc ''hello''))"
    using apiURL_built_once [where msng = adapter_abc and TestURL = "''http://localhost/''"
        and lib = ?lib and m = "''hello''" and T' = "[]" and lib' = ?lib and m' = "''again''"]
    by blast
  show ?thesis
    unfolding later first by (simp add: t const_apiURL_def)
qed

text \<open>
  C9. The text message built for recipient \<open>R\<close> and text \<open>T\<close> serializes to the
  envelope with \<open>R\<close> as the recipient id and \<open>T\<close> as the message text, and
  \<^verbatim>\<open>SendTextMessage\<close> returns what \<^verbatim>\<open>SendMessage\<close> returns for that message.
\<close>

theorem SendTextMessage_envelope:
  "TextMessage_json (NewTextMessage msng R T) =
     JObject [(''recipient'', JObject [(''id'', JNumber (sint R))]),
              (''message'', JObject [(''text'', JString T)])] \<and>
   SendTextMessage TestURL lib msng R T =
     snd (SendMessage TestURL lib msng (NewTextMessage msng R T))"
  by (simp add: TextMessage_json_def NewTextMessage_def SendTextMessage_def case_prod_beta)

text \<open>
  The message \<^verbatim>\<open>hi\<close> for recipient 7.
\<close>

theorem SendTextMessage_envelope_witness:
  "TextMessage_json (NewTextMessage adapter_abc 7 ''hi'') =
     JObject [(''recipient'', JObject [(''id'', JNumber 7)]),
              (''message'', JObject [(''text'', JString ''hi'')])] \<and>
   SendTextMessage [] (example_lib ''body'' raw_ok) adapter_abc 7 ''hi'' =
     snd (SendMessage [] (example_lib ''body'' raw_ok) adapter_abc
            \<lparr>Recipient = 7, Text = ''hi''\<rparr>)"
  using SendTextMessage_envelope [of adapter_abc 7 "''hi''" "[]" "example_lib ''body'' raw_ok"]
  by (simp add: NewTextMessage_def)

text \<open>
  C10. When \<^verbatim>\<open>http.NewRequest\<close> returns an error, \<^verbatim>\<open>SendMessage\<close> panics on the nil
  request after it has stored the URL and logged the message; the error is not returned.
  Whenever \<^verbatim>\<open>SendMessage\<close> returns, \<^verbatim>\<open>http.NewRequest\<close> has returned a request.
\<close>

theorem NewRequest_error_panics:
  "(\<forall>e. http_NewRequest lib ''POST'' (apiURL (init_apiURL TestURL msng)) (marshal_bytes lib m)
          = Inl e \<longrightarrow>
        SendMessage TestURL lib msng m =
          (init_apiURL TestURL msng, [''MESSAGE: '' @ marshal_bytes lib m],
           Inl NilPointerDereference)) \<and>
   (\<forall>x. snd (snd (SendMessage TestURL lib msng m)) = Inr x \<longrightarrow>
        (\<exists>req. http_NewRequest lib ''POST'' (apiURL (init_apiURL TestURL msng))
                 (marshal_bytes lib m) = Inr req))"
  by (auto simp: SendMessage_def Let_def split: sum.splits)

text \<open>
  An access token that ends with a line feed makes a URL that is refused.
\<close>

theorem NewRequest_error_panics_witness:
  "SendMessage [] (example_lib ''body'' raw_ok) adapter_lf ''hello'' =
     (adapter_lf\<lparr>apiURL := const_apiURL @ ''me/messages?access_token=token'' @ [CHR 0x0A]\<rparr>,
      [''MESSAGE: {}''], Inl NilPointerDereference)"
proof -
  have u: "init_apiURL [] adapter_lf =
      adapter_lf\<lparr>apiURL := const_apiURL @ ''me/messages?access_token=token'' @ [CHR 0x0A]\<rparr>"
    by (simp add: init_apiURL_def adapter_lf_def New_def)
  have n: "http_NewRequest (example_lib ''body'' raw_ok) ''POST''
             (apiURL (init_apiURL [] adapter_lf))
             (marshal_bytes (example_lib ''body'' raw_ok) ''hello'') =
           Inl (LibraryError ''net/url: invalid control character in URL'')"
    unfolding u by (simp add: example_lib_def)
  have b: "marshal_bytes (example_lib ''body'' raw_ok) ''hello'' = ''{}''"
    by (simp add: marshal_bytes_def example_lib_def)
  from NewRequest_error_panics [of "example_lib ''body'' raw_ok" "[]" adapter_lf "''hello''"] n
  have "SendMessage [] (example_lib ''body'' raw_ok) adapter_lf ''hello'' =
          (init_apiURL [] adapter_lf,
           [''MESSAGE: '' @ marshal_bytes (example_lib ''body'' raw_ok) ''hello''],
           Inl NilPointerDereference)"
    by blast
  then show ?thesis by (simp add: u b)
qed

end
